theory Spec2Isabelle
  imports Complex_Main "HOL-Library.Word" "HOL-Library.Signed_Division" "HOL-Library.Monad_Syntax"
begin

section \<open>Arithmetic of the device\<close>

text \<open>
  The two kernels (\<^verbatim>\<open>rays.ocl.c\<close>, \<^verbatim>\<open>render.ocl.c\<close>) compute in \<^verbatim>\<open>float\<close>, and every
  unsuffixed literal (\<^verbatim>\<open>2.\<close>, \<^verbatim>\<open>0.0001\<close>, \<^verbatim>\<open>M_PI\<close>) makes its subexpression a
  \<^verbatim>\<open>double\<close> one. OpenCL leaves the accuracy of \<^verbatim>\<open>/\<close>, \<^verbatim>\<open>sqrt\<close>, \<^verbatim>\<open>sin\<close>, \<^verbatim>\<open>cos\<close>,
  \<^verbatim>\<open>acos\<close>, \<^verbatim>\<open>atan2\<close> and \<^verbatim>\<open>length\<close> to the device, so the embedding fixes none of it:
  \<^item> \<open>'f\<close> is the type of \<^verbatim>\<open>float\<close> values and \<open>'d\<close> the type of \<^verbatim>\<open>double\<close> values;
    \<open>+\<close>, \<open>-\<close>, \<open>*\<close>, \<open>/\<close>, unary minus, \<open>\<le>\<close> and \<open><\<close> on them are the operations of
    the syntactic type classes, about which nothing is assumed (no associativity, no
    relation between \<open>\<le>\<close> and \<open><\<close>, so a NaN may fail both);
  \<^item> the conversions and the built-in functions are the fields of the record below.
  Every expression of the source is translated with the conversions that C's usual
  arithmetic conversions insert. A device without \<^verbatim>\<open>double\<close> is the case \<open>'d = 'f\<close>
  with both conversions the identity.
\<close>

record ('f, 'd) arith =
  f2d :: "'f \<Rightarrow> 'd"        \<comment> \<open>promotion of a \<^verbatim>\<open>float\<close> operand next to a \<^verbatim>\<open>double\<close> one\<close>
  d2f :: "'d \<Rightarrow> 'f"        \<comment> \<open>conversion of a \<^verbatim>\<open>double\<close> value stored in a \<^verbatim>\<open>float\<close>\<close>
  dlit :: "real \<Rightarrow> 'd"     \<comment> \<open>the \<^verbatim>\<open>double\<close> constant written as a decimal literal, or \<^verbatim>\<open>M_PI\<close>\<close>
  i2f :: "int \<Rightarrow> 'f"       \<comment> \<open>\<^verbatim>\<open>(float)\<close> of an integer value\<close>
  f2i :: "'f \<Rightarrow> int"       \<comment> \<open>\<^verbatim>\<open>(int)\<close> of a \<^verbatim>\<open>float\<close>\<close>
  f2uc :: "'f \<Rightarrow> 8 word"   \<comment> \<open>\<^verbatim>\<open>(unsigned char)\<close> of a \<^verbatim>\<open>float\<close>\<close>
  fsqrt :: "'f \<Rightarrow> 'f"
  fcos :: "'f \<Rightarrow> 'f"
  fsin :: "'f \<Rightarrow> 'f"
  facos :: "'f \<Rightarrow> 'f"
  fatan2 :: "'f \<Rightarrow> 'f \<Rightarrow> 'f"
  flength :: "'f \<times> 'f \<Rightarrow> 'f"  \<comment> \<open>\<^verbatim>\<open>length\<close> of a \<^verbatim>\<open>float2\<close>\<close>

text \<open>
  For evaluation at concrete inputs: the arithmetic of the real numbers, where every
  operation is exact and both floating-point types are \<open>real\<close>. The casts to integer
  types truncate towards zero. A division by zero and the root of a negative number have
  the values HOL gives them; no statement below about this arithmetic meets either.
\<close>

definition trunc :: "real \<Rightarrow> int" where
  "trunc x = (if 0 \<le> x then \<lfloor>x\<rfloor> else \<lceil>x\<rceil>)"

definition atan2_real :: "real \<Rightarrow> real \<Rightarrow> real" where
  "atan2_real y x =
     (if 0 < x then arctan (y / x)
      else if x < 0 \<and> 0 \<le> y then arctan (y / x) + pi
      else if x < 0 then arctan (y / x) - pi
      else if 0 < y then pi / 2
      else if y < 0 then - (pi / 2)
      else 0)"

definition ideal_arith :: "(real, real) arith" where
  "ideal_arith =
     \<lparr>f2d = (\<lambda>x. x), d2f = (\<lambda>x. x), dlit = (\<lambda>x. x),
      i2f = real_of_int, f2i = trunc, f2uc = (\<lambda>x. word_of_int (trunc x)),
      fsqrt = sqrt, fcos = cos, fsin = sin, facos = arccos, fatan2 = atan2_real,
      flength = (\<lambda>(x, y). sqrt (x * x + y * y))\<rparr>"

section \<open>The outcome table and its lookup (render.ocl.c)\<close>

text \<open>
  \<^verbatim>\<open>struct res_t { float angle; unsigned char outcome; }\<close>
\<close>

record 'f res_t =
  angle :: 'f
  outcome :: "8 word"

text \<open>
  A \<^verbatim>\<open>__global\<close> array is a list; a read at an index outside it is undefined in C, and
  is \<open>None\<close> here.
\<close>

definition read_at :: "'a list \<Rightarrow> int \<Rightarrow> 'a option" where
  "read_at xs i = (if 0 \<le> i \<and> i < int (length xs) then Some (xs ! nat i) else None)"

text \<open>
  \<^verbatim>\<open>struct res_t lookup(__global float *angles, __global unsigned char *angle_results, float pos)\<close>.
  \<^verbatim>\<open>pos - posi\<close> is a \<^verbatim>\<open>float\<close> subtraction. In \<^verbatim>\<open>(1.-f) * angles[posi] + f * angles[posi+1]\<close>
  the first product and the sum are \<^verbatim>\<open>double\<close> ones, the second product is a \<^verbatim>\<open>float\<close>
  one (both its operands are \<^verbatim>\<open>float\<close>), and the sum is stored in the \<^verbatim>\<open>float\<close> field.
\<close>

definition lookup ::
  "('f::{minus,times}, 'd::{plus,minus,times}) arith \<Rightarrow> 'f list \<Rightarrow> 8 word list \<Rightarrow> 'f \<Rightarrow> 'f res_t option"
where
  "lookup ar angles angle_results pos =
     (let posi = f2i ar pos;
          f = pos - i2f ar posi
      in do {
        outcome0 \<leftarrow> read_at angle_results posi;
        outcome1 \<leftarrow> read_at angle_results (posi + 1);
        if outcome0 \<noteq> outcome1 then do {
          a0 \<leftarrow> read_at angles posi;
          Some \<lparr>angle = a0, outcome = outcome0\<rparr>
        } else do {
          a0 \<leftarrow> read_at angles posi;
          a1 \<leftarrow> read_at angles (posi + 1);
          Some \<lparr>angle = d2f ar ((dlit ar 1 - f2d ar f) * f2d ar a0 + f2d ar (f * a1)),
                outcome = outcome0\<rparr>
        }
      })"

section \<open>The geodesic integrator (rays.ocl.c)\<close>

text \<open>\<^verbatim>\<open>__constant float GM = 10.;\<close>\<close>

definition GM :: "('f, 'd) arith \<Rightarrow> 'f" where
  "GM ar = d2f ar (dlit ar 10)"

text \<open>
  \<^verbatim>\<open>float d2t(float r, float dt, float dr)\<close>: declared, and never called by the kernel.
  \<^verbatim>\<open>return -2. * GM / (r * (r - 2. * GM)) * dr * dt;\<close>
\<close>

definition d2t ::
  "('f, 'd::{plus,minus,times,uminus,inverse}) arith \<Rightarrow> 'f \<Rightarrow> 'f \<Rightarrow> 'f \<Rightarrow> 'f"
where
  "d2t ar r dt dr =
     d2f ar (- dlit ar 2 * f2d ar (GM ar) / (f2d ar r * (f2d ar r - dlit ar 2 * f2d ar (GM ar)))
             * f2d ar dr * f2d ar dt)"

text \<open>
  Second derivative of r.
  \<^verbatim>\<open>return - GM / (r * r * r) * (r - 2. * GM) * dt * dt
    + GM / (r * (r - 2. * GM)) * dr * dr
    + (r - 2. * GM) * dtheta * dtheta;\<close>
  The first quotient is a \<^verbatim>\<open>float\<close> one; it meets the \<^verbatim>\<open>double\<close> factor \<^verbatim>\<open>r - 2. * GM\<close>.
\<close>

definition d2r ::
  "('f::{times,uminus,inverse}, 'd::{plus,minus,times,inverse}) arith \<Rightarrow> 'f \<Rightarrow> 'f \<Rightarrow> 'f \<Rightarrow> 'f \<Rightarrow> 'f"
where
  "d2r ar r dt dr dtheta =
     d2f ar (f2d ar (- GM ar / (r * r * r)) * (f2d ar r - dlit ar 2 * f2d ar (GM ar))
               * f2d ar dt * f2d ar dt
             + f2d ar (GM ar) / (f2d ar r * (f2d ar r - dlit ar 2 * f2d ar (GM ar)))
               * f2d ar dr * f2d ar dr
             + (f2d ar r - dlit ar 2 * f2d ar (GM ar)) * f2d ar dtheta * f2d ar dtheta)"

text \<open>Second derivative of theta. \<^verbatim>\<open>return - 2. / r * dtheta * dr;\<close>\<close>

definition d2theta ::
  "('f, 'd::{times,uminus,inverse}) arith \<Rightarrow> 'f \<Rightarrow> 'f \<Rightarrow> 'f \<Rightarrow> 'f"
where
  "d2theta ar r dr dtheta = d2f ar (- dlit ar 2 / f2d ar r * f2d ar dtheta * f2d ar dr)"

text \<open>
  The value of dt that makes the path null.
  \<^verbatim>\<open>float q = 1. - 2. * GM / r;
  return sqrt((dr * dr / (q * q)) + r * r * dtheta * dtheta / q);\<close>
\<close>

definition null_dt ::
  "('f::{plus,times,inverse}, 'd::{minus,times,inverse}) arith \<Rightarrow> 'f \<Rightarrow> 'f \<Rightarrow> 'f \<Rightarrow> 'f"
where
  "null_dt ar r dr dtheta =
     (let q = d2f ar (dlit ar 1 - dlit ar 2 * f2d ar (GM ar) / f2d ar r)
      in fsqrt ar (dr * dr / (q * q) + r * r * dtheta * dtheta / q))"

text \<open>\<^verbatim>\<open>__constant int NUM_ITER = 1000000; __constant float TS = 0.01;\<close>\<close>

definition NUM_ITER :: nat where
  "NUM_ITER = 1000000"

definition TS :: "('f, 'd) arith \<Rightarrow> 'f" where
  "TS ar = d2f ar (dlit ar 0.01)"

text \<open>The local variables \<^verbatim>\<open>r\<close>, \<^verbatim>\<open>theta\<close>, \<^verbatim>\<open>dr\<close>, \<^verbatim>\<open>dtheta\<close> of the kernel.\<close>

record 'f ray =
  ray_r :: 'f
  ray_theta :: 'f
  ray_dr :: 'f
  ray_dtheta :: 'f

text \<open>
  The body of the \<^verbatim>\<open>for\<close> loop up to its two tests (lines 81 to 94): each \<^verbatim>\<open>let\<close>
  is one statement, and a name bound again is the variable assigned again.
\<close>

definition step ::
  "('f::{plus,times,uminus,inverse}, 'd::{plus,minus,times,uminus,inverse}) arith \<Rightarrow> 'f ray \<Rightarrow> 'f ray"
where
  "step ar s =
     (let r = ray_r s; theta = ray_theta s; dr = ray_dr s; dtheta = ray_dtheta s;
          dt = null_dt ar r dr dtheta;
          ddr = d2r ar r dt dr dtheta;
          ddtheta = d2theta ar r dr dtheta;
          dr = dr + TS ar * ddr;
          dtheta = dtheta + TS ar * ddtheta;
          r = r + TS ar * dr;
          theta = theta + TS ar * dtheta
      in \<lparr>ray_r = r, ray_theta = theta, ray_dr = dr, ray_dtheta = dtheta\<rparr>)"

text \<open>
  The loop \<^verbatim>\<open>for (int t = 0; t < NUM_ITER; t++)\<close>, by the number of iterations left. It
  takes the kernel's variable \<^verbatim>\<open>min_r\<close> as its second argument, and
  returns the flag \<^verbatim>\<open>hit\<close> and the variables as the loop leaves them. The first test
  compares two \<^verbatim>\<open>float\<close>s, the second (\<^verbatim>\<open>r > 500.\<close>) two \<^verbatim>\<open>double\<close>s.
\<close>

fun integrate ::
  "('f::{plus,times,uminus,inverse,ord}, 'd::{plus,minus,times,uminus,inverse,ord}) arith
     \<Rightarrow> 'f \<Rightarrow> nat \<Rightarrow> 'f ray \<Rightarrow> bool \<times> 'f ray"
where
  "integrate ar min_r 0 s = (False, s)"
| "integrate ar min_r (Suc n) s =
     (let s' = step ar s
      in if ray_r s' \<le> min_r then (True, s')
         else if f2d ar (ray_r s') > dlit ar 500 then (False, s')
         else integrate ar min_r n s')"

text \<open>
  A write to a \<^verbatim>\<open>__global\<close> array; outside the array it is undefined in C, and \<open>None\<close>
  here. \<open>to_int\<close> is the conversion of a \<^verbatim>\<open>size_t\<close> (\<^verbatim>\<open>get_global_id\<close>) to \<^verbatim>\<open>int\<close>.
\<close>

definition write_at :: "'a list \<Rightarrow> int \<Rightarrow> 'a \<Rightarrow> 'a list option" where
  "write_at xs i v = (if 0 \<le> i \<and> i < int (length xs) then Some (xs[nat i := v]) else None)"

definition to_int :: "nat \<Rightarrow> int" where
  "to_int n = sint (word_of_nat n :: 32 word)"

text \<open>
  Lines 59 to 74 of the kernel: the fudged horizon radius, and the variables of slot
  \<open>slot\<close> as the loop finds them. \<^verbatim>\<open>2 * GM\<close> is a \<^verbatim>\<open>float\<close> product, \<^verbatim>\<open>1. - frac\<close> a
  \<^verbatim>\<open>double\<close> difference.
\<close>

definition min_r :: "('f::times, 'd::plus) arith \<Rightarrow> 'f" where
  "min_r ar = d2f ar (f2d ar (i2f ar 2 * GM ar) + dlit ar 0.0001)"

definition initial_ray ::
  "('f::{times,uminus,inverse}, 'd::{plus,minus,times}) arith \<Rightarrow> 'f \<Rightarrow> 'f \<Rightarrow> int \<Rightarrow> 'f \<Rightarrow> int \<Rightarrow> 'f ray"
where
  "initial_ray ar minv maxv num start_r slot =
     (let i = i2f ar slot;
          frac = i / i2f ar (num - 1);
          ray_amt = d2f ar (f2d ar (maxv * frac) + f2d ar minv * (dlit ar 1 - f2d ar frac));
          dx = ray_amt;
          dz = d2f ar (dlit ar 1);
          r = start_r;
          theta = d2f ar (dlit ar pi);
          dr = - start_r * dz / r;
          dtheta = - start_r * dx / (r * r)
      in \<lparr>ray_r = r, ray_theta = theta, ray_dr = dr, ray_dtheta = dtheta\<rparr>)"

text \<open>
  \<^verbatim>\<open>__kernel void gen_outcomes(__global float *angles, __global unsigned char *outcomes,
  float min, float max, int num, float start_r)\<close>, for the work item \<open>gid\<close>. It returns
  the two arrays as the work item leaves them.
\<close>

definition gen_outcomes ::
  "('f::{plus,times,uminus,inverse,ord}, 'd::{plus,minus,times,uminus,inverse,ord}) arith
     \<Rightarrow> 'f list \<Rightarrow> 8 word list \<Rightarrow> 'f \<Rightarrow> 'f \<Rightarrow> int \<Rightarrow> 'f \<Rightarrow> nat \<Rightarrow> ('f list \<times> 8 word list) option"
where
  "gen_outcomes ar angles outcomes minv maxv num start_r gid =
     (let slot = to_int gid;
          (hit, s) = integrate ar (min_r ar) NUM_ITER (initial_ray ar minv maxv num start_r slot);
          r = ray_r s; theta = ray_theta s; dr = ray_dr s; dtheta = ray_dtheta s
      in if hit then do {
           outcomes' \<leftarrow> write_at outcomes slot 0;
           angles' \<leftarrow> write_at angles slot (d2f ar (dlit ar pi / dlit ar 2 - f2d ar theta));
           Some (angles', outcomes')
         } else
           (let dx = r * fcos ar theta * dtheta + fsin ar theta * dr;
                dz = - r * fsin ar theta * dtheta + fcos ar theta * dr
            in do {
              outcomes' \<leftarrow> write_at outcomes slot 1;
              angles' \<leftarrow> write_at angles slot (fatan2 ar dz dx);
              Some (angles', outcomes')
            }))"

section \<open>The renderer (render.ocl.c)\<close>

text \<open>
  \<^verbatim>\<open>typedef struct Pixel { unsigned char a; unsigned char r; unsigned char g; unsigned char b; } Pixel;\<close>
  The fields keep their order; they are prefixed, as \<open>a\<close>, \<open>r\<close>, \<open>g\<close> and \<open>b\<close> are
  variables everywhere else.
\<close>

record Pixel =
  px_a :: "8 word"
  px_r :: "8 word"
  px_g :: "8 word"
  px_b :: "8 word"

text \<open>
  An \<^verbatim>\<open>image2d_t\<close> read through \<^verbatim>\<open>sampler_const\<close> (normalised coordinates, repeat
  addressing, linear filter): what \<^verbatim>\<open>read_imagef(img, sampler_const, coords)\<close> returns at
  each \<^verbatim>\<open>float2\<close>, as the \<^verbatim>\<open>float4\<close> of its components \<open>(x, y, z, w)\<close>.
\<close>

type_synonym 'f image = "'f \<times> 'f \<Rightarrow> 'f \<times> 'f \<times> 'f \<times> 'f"

text \<open>
  \<^verbatim>\<open>Pixel pixel_from_img(image2d_t img, float2 coords)\<close>: the sample times
  \<^verbatim>\<open>(float4)(255.)\<close>, and \<^verbatim>\<open>Pixel res = { vals.w, vals.x, vals.y, vals.z }\<close> cast to bytes.
\<close>

definition pixel_from_img :: "('f::times, 'd) arith \<Rightarrow> 'f image \<Rightarrow> 'f \<times> 'f \<Rightarrow> Pixel" where
  "pixel_from_img ar img coords =
     (let (x, y, z, w) = img coords;
          c = d2f ar (dlit ar 255);
          (vals_x, vals_y, vals_z, vals_w) = (x * c, y * c, z * c, w * c)
      in \<lparr>px_a = f2uc ar vals_w, px_r = f2uc ar vals_x, px_g = f2uc ar vals_y,
          px_b = f2uc ar vals_z\<rparr>)"

text \<open>\<^verbatim>\<open>__constant float max_r = 5.;\<close>\<close>

definition max_r :: "('f, 'd) arith \<Rightarrow> 'f" where
  "max_r ar = d2f ar (dlit ar 5)"

text \<open>
  The body of the inner loop of \<^verbatim>\<open>schwarz\<close> up to the choice of the texture (lines 68 to
  113): the \<^verbatim>\<open>Pixel\<close> of the supersample \<open>(aa_x, aa_y)\<close> of the work item
  \<open>(gid0, gid1)\<close>, or \<open>None\<close> when the lookup reads outside the table. \<^verbatim>\<open>x_res/2\<close> is
  an unsigned division; a \<^verbatim>\<open>float2\<close> or \<^verbatim>\<open>float3\<close> is a tuple.
\<close>

definition sample ::
  "('f::{plus,minus,times,uminus,inverse}, 'd::{plus,minus,times,inverse}) arith
     \<Rightarrow> 'f list \<Rightarrow> 8 word list \<Rightarrow> 32 word \<Rightarrow> 32 word \<Rightarrow> 'f \<Rightarrow> 'f \<Rightarrow> 'f image \<Rightarrow> 'f image
     \<Rightarrow> 32 word \<Rightarrow> 32 word \<Rightarrow> nat \<Rightarrow> nat \<Rightarrow> int \<Rightarrow> int \<Rightarrow> Pixel option"
where
  "sample ar angles angle_results x_res y_res cx cy skytex spheretex aa num_outcomes
       gid0 gid1 aa_x aa_y =
     (let x = i2f ar (int gid0);
          y = i2f ar (int gid1);
          x = x + i2f ar aa_x / i2f ar (sint aa);
          y = y + i2f ar aa_y / i2f ar (sint aa);
          (p_x, p_y) =
            (d2f ar ((f2d ar x - f2d ar (i2f ar (uint x_res)) / dlit ar 2)
                     / f2d ar (i2f ar (uint (x_res div 2)))),
             d2f ar ((f2d ar y - f2d ar (i2f ar (uint y_res)) / dlit ar 2)
                     / f2d ar (i2f ar (uint (x_res div 2)))));
          r = d2f ar (f2d ar (flength ar (p_x, p_y)) * dlit ar 3)
      in do {
        lookup_res \<leftarrow> lookup ar angles angle_results (r * i2f ar (uint num_outcomes) / max_r ar);
        let angle_out = angle lookup_res;
            res = outcome lookup_res;
            pixel_angle = fatan2 ar p_y p_x;
            (loc_x, loc_y, loc_z) = (fcos ar angle_out, fsin ar angle_out, d2f ar (dlit ar 0));
            (loc_x, loc_y, loc_z) =
              (fcos ar pixel_angle * loc_x + fsin ar pixel_angle * loc_z,
               loc_y,
               - fsin ar pixel_angle * loc_x + fcos ar pixel_angle * loc_z);
            x_angle = d2f ar (f2d ar cx / dlit ar 200);
            y_angle = d2f ar ((f2d ar cy - dlit ar 600) / dlit ar 200);
            (loc_x, loc_y, loc_z) =
              (loc_x,
               fcos ar y_angle * loc_y + fsin ar y_angle * loc_z,
               - fsin ar y_angle * loc_y + fcos ar y_angle * loc_z);
            (loc_x, loc_y, loc_z) =
              (fcos ar x_angle * loc_x + fsin ar x_angle * loc_y,
               - fsin ar x_angle * loc_x + fcos ar x_angle * loc_y,
               loc_z);
            phi = d2f ar (f2d ar (facos ar loc_z) / dlit ar pi);
            theta = d2f ar ((f2d ar (fatan2 ar loc_y loc_x) + dlit ar pi) / (dlit ar 2 * dlit ar pi))
        in Some (if res = 0 then pixel_from_img ar spheretex (theta, phi)
                 else pixel_from_img ar skytex (- theta, phi))
      })"

text \<open>
  A loop \<^verbatim>\<open>for (int i = i0; i < n; i++)\<close> over a state, whose body may be undefined.
  The counter never overflows: it stays below \<open>n\<close>.
\<close>

function for_loop :: "(int \<Rightarrow> 's \<Rightarrow> 's option) \<Rightarrow> int \<Rightarrow> int \<Rightarrow> 's \<Rightarrow> 's option" where
  "for_loop body n i s =
     (if i < n then (case body i s of None \<Rightarrow> None | Some s' \<Rightarrow> for_loop body n (i + 1) s')
      else Some s)"
  by pat_completeness auto
termination
  by (relation "measure (\<lambda>(body, n, i, s). nat (n - i))") auto

declare for_loop.simps [simp del]

text \<open>
  The three accumulators \<^verbatim>\<open>int res_r, res_g, res_b\<close> (32 bits, wrapping), and
  \<^verbatim>\<open>res_r += pixel.r; res_g += pixel.g; res_b += pixel.b;\<close>
\<close>

type_synonym acc = "32 word \<times> 32 word \<times> 32 word"

definition accumulate :: "acc \<Rightarrow> Pixel \<Rightarrow> acc" where
  "accumulate res pixel =
     (case res of (res_r, res_g, res_b) \<Rightarrow>
        (res_r + ucast (px_r pixel), res_g + ucast (px_g pixel), res_b + ucast (px_b pixel)))"

text \<open>
  The division of two \<^verbatim>\<open>int\<close>s, truncating; by zero its value is unspecified in
  OpenCL, and it is \<open>None\<close> here.
\<close>

definition int_div :: "32 word \<Rightarrow> 32 word \<Rightarrow> 32 word option" where
  "int_div a b = (if b = 0 then None else Some (word_of_int (sint a sdiv sint b)))"

text \<open>
  The two nested loops of \<^verbatim>\<open>schwarz\<close> and the three divisions that follow them (lines 62
  to 122), over the body \<open>body aa_x aa_y\<close> of the inner loop: the averaged
  \<open>(res_r, res_g, res_b)\<close>.
\<close>

definition antialias :: "(int \<Rightarrow> int \<Rightarrow> Pixel option) \<Rightarrow> 32 word \<Rightarrow> acc option" where
  "antialias body aa =
     do {
       (res_r, res_g, res_b) \<leftarrow>
         for_loop (\<lambda>aa_x. for_loop (\<lambda>aa_y res. do {
             pixel \<leftarrow> body aa_x aa_y;
             Some (accumulate res pixel)
           }) (sint aa) 0) (sint aa) 0 (0, 0, 0);
       res_r \<leftarrow> int_div res_r (aa * aa);
       res_g \<leftarrow> int_div res_g (aa * aa);
       res_b \<leftarrow> int_div res_b (aa * aa);
       Some (res_r, res_g, res_b)
     }"

text \<open>
  \<^verbatim>\<open>__kernel void schwarz(__global Pixel *buffer, __global float *angles,
  __global unsigned char *angle_results, unsigned int x_res, unsigned int y_res,
  unsigned int pitch, float cx, float cy, read_only image2d_t skytex,
  read_only image2d_t spheretex, int aa, unsigned int num_outcomes)\<close>, for the work item
  \<open>(gid0, gid1)\<close>. It returns the buffer as the work item leaves it.
  \<^verbatim>\<open>Pixel final_pixel = { res_b, res_g, res_r, 0 };\<close> initialises the fields in the order
  of their declaration: \<open>a\<close>, \<open>r\<close>, \<open>g\<close>, \<open>b\<close>.
\<close>

definition schwarz ::
  "('f::{plus,minus,times,uminus,inverse}, 'd::{plus,minus,times,inverse}) arith
     \<Rightarrow> Pixel list \<Rightarrow> 'f list \<Rightarrow> 8 word list \<Rightarrow> 32 word \<Rightarrow> 32 word \<Rightarrow> 32 word \<Rightarrow> 'f \<Rightarrow> 'f
     \<Rightarrow> 'f image \<Rightarrow> 'f image \<Rightarrow> 32 word \<Rightarrow> 32 word \<Rightarrow> nat \<Rightarrow> nat \<Rightarrow> Pixel list option"
where
  "schwarz ar buffer angles angle_results x_res y_res pitch cx cy skytex spheretex aa
       num_outcomes gid0 gid1 =
     (let pixel_loc = to_int (gid0 + gid1 * unat pitch)
      in do {
        (res_r, res_g, res_b) \<leftarrow>
          antialias (sample ar angles angle_results x_res y_res cx cy skytex spheretex aa
                       num_outcomes gid0 gid1) aa;
        let final_pixel = \<lparr>px_a = ucast res_b, px_r = ucast res_g, px_g = ucast res_r, px_b = 0\<rparr>
        in write_at buffer pixel_loc final_pixel
      })"

section \<open>Predicates of the statements\<close>

text \<open>
  The two tests that end the loop of \<^verbatim>\<open>gen_outcomes\<close> (lines 96 and 102), on the
  variables as one iteration leaves them: \<^verbatim>\<open>r <= min_r\<close> or \<^verbatim>\<open>r > 500.\<close>
\<close>

definition crossed :: "('f::ord, 'd::ord) arith \<Rightarrow> 'f \<Rightarrow> 'f ray \<Rightarrow> bool" where
  "crossed ar m s \<longleftrightarrow> ray_r s \<le> m \<or> f2d ar (ray_r s) > dlit ar 500"

text \<open>
  One iteration of the loop in the words of the specification: \<open>dt\<close> from the null
  condition, \<open>dt = sqrt (dr\<^sup>2 / q\<^sup>2 + r\<^sup>2 * dtheta\<^sup>2 / q)\<close> with \<open>q = 1 - 2 * GM / r\<close>; then the
  velocities, \<open>dr += TS * d2r\<close> and \<open>dtheta += TS * d2theta\<close> with
  \<open>d2r = - GM / r\<^sup>3 * (r - 2 * GM) * dt\<^sup>2 + GM / (r * (r - 2 * GM)) * dr\<^sup>2 + (r - 2 * GM) * dtheta\<^sup>2\<close>
  and \<open>d2theta = - 2 / r * dtheta * dr\<close>; then the positions, \<open>r += TS * dr\<close> and
  \<open>theta += TS * dtheta\<close>, from the velocities just updated. Every operation has the type
  the kernel gives it.
\<close>

definition euler_step ::
  "('f::{plus,times,uminus,inverse}, 'd::{plus,minus,times,uminus,inverse}) arith \<Rightarrow> 'f ray \<Rightarrow> 'f ray"
where
  "euler_step ar s =
     (let r = ray_r s; theta = ray_theta s; dr = ray_dr s; dtheta = ray_dtheta s;
          q = d2f ar (dlit ar 1 - dlit ar 2 * f2d ar (GM ar) / f2d ar r);
          dt = fsqrt ar (dr * dr / (q * q) + r * r * dtheta * dtheta / q);
          ddr = d2f ar (f2d ar (- GM ar / (r * r * r)) * (f2d ar r - dlit ar 2 * f2d ar (GM ar))
                          * f2d ar dt * f2d ar dt
                        + f2d ar (GM ar) / (f2d ar r * (f2d ar r - dlit ar 2 * f2d ar (GM ar)))
                          * f2d ar dr * f2d ar dr
                        + (f2d ar r - dlit ar 2 * f2d ar (GM ar)) * f2d ar dtheta * f2d ar dtheta);
          ddtheta = d2f ar (- dlit ar 2 / f2d ar r * f2d ar dtheta * f2d ar dr);
          dr' = dr + TS ar * ddr;
          dtheta' = dtheta + TS ar * ddtheta
      in \<lparr>ray_r = r + TS ar * dr', ray_theta = theta + TS ar * dtheta',
          ray_dr = dr', ray_dtheta = dtheta'\<rparr>)"


text \<open>
  The sum of one channel over the \<open>n \<times> n\<close> supersamples \<open>px aa_x aa_y\<close> of a pixel, in
  the order of the two loops, as a natural number.
\<close>

definition channel_sum :: "(Pixel \<Rightarrow> 8 word) \<Rightarrow> (int \<Rightarrow> int \<Rightarrow> Pixel) \<Rightarrow> int \<Rightarrow> nat" where
  "channel_sum c px n = (\<Sum>ax\<leftarrow>[0..n - 1]. \<Sum>ay\<leftarrow>[0..n - 1]. unat (c (px ax ay)))"

text \<open>
  The layout of the written pixel in the words of the specification:
  \<open>(alpha = 0, red = accumulated_b, green = accumulated_g, blue = accumulated_r)\<close>.
\<close>

definition claimed_pixel :: "32 word \<Rightarrow> 32 word \<Rightarrow> 32 word \<Rightarrow> Pixel" where
  "claimed_pixel res_r res_g res_b =
     \<lparr>px_a = 0, px_r = ucast res_b, px_g = ucast res_g, px_b = ucast res_r\<rparr>"

text \<open>
  The colour channels of a texture sample (its \<open>x\<close>, \<open>y\<close>, \<open>z\<close>, without the alpha
  \<open>w\<close>), and of a \<^verbatim>\<open>Pixel\<close>.
\<close>

definition rgb :: "'f \<times> 'f \<times> 'f \<times> 'f \<Rightarrow> 'f \<times> 'f \<times> 'f" where
  "rgb v = (case v of (x, y, z, w) \<Rightarrow> (x, y, z))"

definition colour :: "Pixel \<Rightarrow> 8 word \<times> 8 word \<times> 8 word" where
  "colour p = (px_r p, px_g p, px_b p)"

section \<open>An arithmetic with a NaN\<close>

text \<open>
  Exact arithmetic with one more value, which every operation propagates, as IEEE 754
  arithmetic propagates a NaN: in particular \<open>0 * NaN = NaN\<close>. A cast of the NaN to an
  integer type is undefined in C; the values below are those of x86.
\<close>

datatype fl = Fin real | NaN


fun lift2 :: "(real \<Rightarrow> real \<Rightarrow> real) \<Rightarrow> fl \<Rightarrow> fl \<Rightarrow> fl" where
  "lift2 f (Fin x) (Fin y) = Fin (f x y)"
| "lift2 f a b = NaN"

instantiation fl :: "{zero,one,plus,minus,times}"
begin

definition zero_fl :: fl where
  "0 = Fin 0"

definition one_fl :: fl where
  "1 = Fin 1"

definition plus_fl :: "fl \<Rightarrow> fl \<Rightarrow> fl" where
  "a + b = lift2 (+) a b"

definition minus_fl :: "fl \<Rightarrow> fl \<Rightarrow> fl" where
  "a - b = lift2 (-) a b"

definition times_fl :: "fl \<Rightarrow> fl \<Rightarrow> fl" where
  "a * b = lift2 (*) a b"

instance ..

end


section \<open>Concrete inputs\<close>

text \<open>
  A table of six slots whose first ray escapes and next two are captured; a sky texture
  of one tint and a green sphere texture, both opaque; a blank pixel.
\<close>

definition tab_angles :: "real list" where
  "tab_angles = [0, 0, 0, 0, 0, 0]"

definition tab_outcomes :: "8 word list" where
  "tab_outcomes = [1, 0, 0, 1, 1, 1]"

definition tint_sky :: "real image" where
  "tint_sky = (\<lambda>c. (1, 1 / 5, 2 / 5, 1))"

definition green_sphere :: "real image" where
  "green_sphere = (\<lambda>c. (0, 1, 0, 1))"

definition blank :: Pixel where
  "blank = \<lparr>px_a = 0, px_r = 0, px_g = 0, px_b = 0\<rparr>"

text \<open>The bytes of a sample of each texture, and the four supersamples of the pixel used below.\<close>

definition sky_px :: Pixel where
  "sky_px = \<lparr>px_a = 255, px_r = 255, px_g = 51, px_b = 102\<rparr>"

definition sphere_px :: Pixel where
  "sphere_px = \<lparr>px_a = 255, px_r = 0, px_g = 255, px_b = 0\<rparr>"

definition quad :: "int \<Rightarrow> int \<Rightarrow> Pixel" where
  "quad ax ay = (if ax = 0 \<and> ay = 0 then sky_px else sphere_px)"

section \<open>Integer conversions\<close>

lemma sint_word_of_int_small:
  "- (2 ^ 31) \<le> k \<Longrightarrow> k < 2 ^ 31 \<Longrightarrow> sint (word_of_int k :: 32 word) = k"
  by (simp add: sint_sbintrunc' signed_take_bit_int_eq_self)


lemma to_int_small:
  "to_int 0 = 0" "to_int 1 = 1" "to_int (Suc 0) = 1" "to_int 2 = 2"
  "to_int (Suc (Suc (Suc 0))) = 3"
  by (simp_all add: to_int_def)

section \<open>Lookup\<close>

lemma read_at_in_range: "0 \<le> i \<Longrightarrow> i < int (length xs) \<Longrightarrow> read_at xs i = Some (xs ! nat i)"
  by (simp add: read_at_def)

text \<open>
  C5. For a position whose integer part \<open>posi\<close> satisfies \<open>0 \<le> posi \<le> num - 2\<close>, lookup
  is defined; its outcome is \<open>angle_results[posi]\<close>; its angle is \<open>angles[posi]\<close>, unblended,
  where the two neighbouring outcomes differ, and the blend
  \<open>(1 - f) * angles[posi] + f * angles[posi + 1]\<close> with \<open>f = pos - posi\<close> where they agree.
  So at a discontinuity every position between \<open>i\<close> and \<open>i + 1\<close> (such as \<open>i + 0.5\<close>)
  returns exactly \<open>angles[i]\<close>.
\<close>

theorem lookup_in_range:
  fixes ar :: "('f::{minus,times}, 'd::{plus,minus,times}) arith"
  assumes "f2i ar pos = posi"
    and "0 \<le> posi"
    and "posi + 1 < int (length angles)"
    and "length angle_results = length angles"
  shows "lookup ar angles angle_results pos =
    Some \<lparr>angle =
            (if angle_results ! nat posi \<noteq> angle_results ! nat (posi + 1)
             then angles ! nat posi
             else d2f ar ((dlit ar 1 - f2d ar (pos - i2f ar posi)) * f2d ar (angles ! nat posi)
                          + f2d ar ((pos - i2f ar posi) * angles ! nat (posi + 1)))),
          outcome = angle_results ! nat posi\<rparr>"
  using assms by (simp add: lookup_def Let_def read_at_in_range)

theorem lookup_in_range_witness:
  "lookup ideal_arith [1, 2, 4] [0, 1, 1] (1 / 2) = Some \<lparr>angle = 1, outcome = 0\<rparr>
   \<and> lookup ideal_arith [1, 2, 4] [0, 1, 1] (3 / 2) = Some \<lparr>angle = 3, outcome = 1\<rparr>"
proof -
  have t0: "f2i ideal_arith (1 / 2) = 0" and t1: "f2i ideal_arith (3 / 2) = 1"
    by (simp_all add: ideal_arith_def trunc_def)
  show ?thesis
    using lookup_in_range [of ideal_arith "1 / 2" 0 "[1, 2, 4]" "[0, 1, 1]", OF t0]
      lookup_in_range [of ideal_arith "3 / 2" 1 "[1, 2, 4]" "[0, 1, 1]", OF t1]
    by (simp add: ideal_arith_def)
qed





section \<open>The integrator\<close>

text \<open>
  C4. The kernel runs its loop from this state of slot \<open>slot\<close>, and stores what the loop
  leaves: \<open>frac = slot / (num - 1)\<close>, \<open>ray_amt = max * frac + min * (1 - frac)\<close>, the
  direction \<open>(dx, dz) = (ray_amt, 1)\<close>, the position \<open>r = start_r\<close>, \<open>theta = pi\<close>, and the
  rates \<open>dr = - start_r * dz / r\<close> and \<open>dtheta = - start_r * dx / (r * r)\<close>. This holds for
  every \<open>num\<close>.
\<close>

theorem gen_outcomes_initial_state:
  fixes ar :: "('f::{plus,times,uminus,inverse,ord}, 'd::{plus,minus,times,uminus,inverse,ord}) arith"
  shows "gen_outcomes ar angles outcomes minv maxv num start_r gid =
    (let slot = to_int gid;
         frac = i2f ar slot / i2f ar (num - 1);
         ray_amt = d2f ar (f2d ar (maxv * frac) + f2d ar minv * (dlit ar 1 - f2d ar frac));
         dx = ray_amt; dz = d2f ar (dlit ar 1);
         s0 = \<lparr>ray_r = start_r, ray_theta = d2f ar (dlit ar pi),
               ray_dr = - start_r * dz / start_r,
               ray_dtheta = - start_r * dx / (start_r * start_r)\<rparr>;
         (hit, s) = integrate ar (min_r ar) NUM_ITER s0
     in if hit then do {
          outcomes' \<leftarrow> write_at outcomes slot 0;
          angles' \<leftarrow> write_at angles slot (d2f ar (dlit ar pi / dlit ar 2 - f2d ar (ray_theta s)));
          Some (angles', outcomes')
        } else
          (let dx = ray_r s * fcos ar (ray_theta s) * ray_dtheta s + fsin ar (ray_theta s) * ray_dr s;
               dz = - ray_r s * fsin ar (ray_theta s) * ray_dtheta s + fcos ar (ray_theta s) * ray_dr s
           in do {
             outcomes' \<leftarrow> write_at outcomes slot 1;
             angles' \<leftarrow> write_at angles slot (fatan2 ar dz dx);
             Some (angles', outcomes')
           }))"
  by (simp add: gen_outcomes_def initial_ray_def Let_def split: prod.split)

text \<open>
  The loop leaves at the first iteration \<open>k\<close> whose state passes one of the two tests, or
  after the last one; \<open>hit\<close> is set exactly when the test \<^verbatim>\<open>r <= min_r\<close> holds there.
\<close>

lemma integrate_exit:
  fixes ar :: "('f::{plus,times,uminus,inverse,ord}, 'd::{plus,minus,times,uminus,inverse,ord}) arith"
  assumes "1 \<le> k" and "k \<le> n"
    and "\<forall>j. 1 \<le> j \<and> j < k \<longrightarrow> \<not> crossed ar m ((step ar ^^ j) s)"
    and "crossed ar m ((step ar ^^ k) s) \<or> k = n"
  shows "integrate ar m n s = (ray_r ((step ar ^^ k) s) \<le> m, (step ar ^^ k) s)"
  using assms
proof (induction n arbitrary: s k)
  case 0
  then show ?case by simp
next
  case (Suc n)
  show ?case
  proof (cases "k = 1")
    case True
    show ?thesis
    proof (cases "crossed ar m (step ar s)")
      case c: True
      then show ?thesis using True by (auto simp: crossed_def Let_def)
    next
      case c: False
      with Suc.prems True have "n = 0" by simp
      then show ?thesis using True c by (auto simp: crossed_def Let_def)
    qed
  next
    case False
    with Suc.prems have k: "2 \<le> k" by simp
    then obtain k' where k': "k = Suc k'" "1 \<le> k'" by (cases k) auto
    have nc: "\<not> crossed ar m (step ar s)"
      using Suc.prems(3) k by (auto dest: spec [of _ 1])
    have pow: "\<And>j. (step ar ^^ j) (step ar s) = (step ar ^^ Suc j) s"
      by (simp add: funpow_swap1)
    have "integrate ar m n (step ar s)
        = (ray_r ((step ar ^^ k') (step ar s)) \<le> m, (step ar ^^ k') (step ar s))"
    proof (rule Suc.IH)
      show "1 \<le> k'" by (rule k')
      show "k' \<le> n" using Suc.prems(2) k' by simp
      show "\<forall>j. 1 \<le> j \<and> j < k' \<longrightarrow> \<not> crossed ar m ((step ar ^^ j) (step ar s))"
        using Suc.prems(3) k' unfolding pow by auto
      show "crossed ar m ((step ar ^^ k') (step ar s)) \<or> k' = n"
        using Suc.prems(4) k' unfolding pow by auto
    qed
    then show ?thesis
      using nc k' by (simp add: crossed_def Let_def pow del: funpow.simps)
  qed
qed

text \<open>Such an iteration exists for every ray.\<close>

lemma exit_step_exists:
  fixes ar :: "('f::{plus,times,uminus,inverse,ord}, 'd::{plus,minus,times,uminus,inverse,ord}) arith"
  assumes "1 \<le> n"
  shows "\<exists>k. 1 \<le> k \<and> k \<le> n
           \<and> (\<forall>j. 1 \<le> j \<and> j < k \<longrightarrow> \<not> crossed ar m ((step ar ^^ j) s))
           \<and> (crossed ar m ((step ar ^^ k) s) \<or> k = n)"
proof (cases "\<exists>j. 1 \<le> j \<and> j \<le> n \<and> crossed ar m ((step ar ^^ j) s)")
  case True
  define k where "k = (LEAST j. 1 \<le> j \<and> j \<le> n \<and> crossed ar m ((step ar ^^ j) s))"
  have k: "1 \<le> k \<and> k \<le> n \<and> crossed ar m ((step ar ^^ k) s)"
    unfolding k_def using True by (rule LeastI_ex)
  have "\<not> (1 \<le> j \<and> j \<le> n \<and> crossed ar m ((step ar ^^ j) s))" if "j < k" for j
    using that unfolding k_def by (rule not_less_Least)
  then have "\<forall>j. 1 \<le> j \<and> j < k \<longrightarrow> \<not> crossed ar m ((step ar ^^ j) s)"
    using k by auto
  then show ?thesis using k by blast
next
  case False
  then have "\<forall>j. 1 \<le> j \<and> j < n \<longrightarrow> \<not> crossed ar m ((step ar ^^ j) s)"
    by auto
  then show ?thesis using assms by blast
qed

lemma write_at_in_range:
  "0 \<le> i \<Longrightarrow> i < int (length xs) \<Longrightarrow> write_at xs i v = Some (xs[nat i := v])"
  by (simp add: write_at_def)

text \<open>
  C2. Let \<open>k\<close> be the iteration at which the loop of a slot leaves: the first one, among
  the \<open>NUM_ITER\<close> iterations, whose state has \<open>r \<le> min_r\<close> or \<open>r > 500\<close>, or the last
  iteration \<open>NUM_ITER\<close> when there is none. If \<open>r \<le> min_r\<close> there, the slot's outcome is
  0 (captured) and its angle is \<open>pi / 2 - theta\<close> of that state. Otherwise (\<open>r > 500\<close>, or
  the budget exhausted) the outcome is 1 (escaped) and the angle is \<open>atan2 (dz, dx)\<close> with
  \<open>dx = r * cos theta * dtheta + sin theta * dr\<close> and
  \<open>dz = - r * sin theta * dtheta + cos theta * dr\<close> of that last state.
\<close>

theorem gen_outcomes_exit:
  fixes ar :: "('f::{plus,times,uminus,inverse,ord}, 'd::{plus,minus,times,uminus,inverse,ord}) arith"
  assumes "1 \<le> k" and "k \<le> NUM_ITER"
    and "\<forall>j. 1 \<le> j \<and> j < k \<longrightarrow>
           \<not> crossed ar (min_r ar) ((step ar ^^ j) (initial_ray ar minv maxv num start_r (to_int gid)))"
    and "crossed ar (min_r ar) ((step ar ^^ k) (initial_ray ar minv maxv num start_r (to_int gid)))
         \<or> k = NUM_ITER"
    and "0 \<le> to_int gid" and "to_int gid < int (length angles)"
    and "length outcomes = length angles"
  shows "gen_outcomes ar angles outcomes minv maxv num start_r gid =
    (let s = (step ar ^^ k) (initial_ray ar minv maxv num start_r (to_int gid));
         r = ray_r s; theta = ray_theta s; dr = ray_dr s; dtheta = ray_dtheta s;
         dx = r * fcos ar theta * dtheta + fsin ar theta * dr;
         dz = - r * fsin ar theta * dtheta + fcos ar theta * dr
     in if r \<le> min_r ar
        then Some (angles[nat (to_int gid) := d2f ar (dlit ar pi / dlit ar 2 - f2d ar theta)],
                   outcomes[nat (to_int gid) := 0])
        else Some (angles[nat (to_int gid) := fatan2 ar dz dx],
                   outcomes[nat (to_int gid) := 1]))"
proof -
  have "integrate ar (min_r ar) NUM_ITER (initial_ray ar minv maxv num start_r (to_int gid))
      = (ray_r ((step ar ^^ k) (initial_ray ar minv maxv num start_r (to_int gid))) \<le> min_r ar,
         (step ar ^^ k) (initial_ray ar minv maxv num start_r (to_int gid)))"
    using assms(1-4) by (rule integrate_exit)
  then show ?thesis
    using assms(5-7) by (simp add: gen_outcomes_def Let_def write_at_in_range)
qed

text \<open>
  In exact arithmetic a ray with \<open>dtheta = 0\<close> keeps its radial velocity: the two terms
  of \<open>d2r\<close> cancel under the null condition.
\<close>

lemma ideal_consts:
  "GM ideal_arith = 10" "TS ideal_arith = 1 / 100" "min_r ideal_arith = 200001 / 10000"
  by (simp_all add: GM_def TS_def min_r_def ideal_arith_def)

lemma ideal_radial_step:
  assumes "r \<noteq> 0" and "r \<noteq> 20"
  shows "step ideal_arith \<lparr>ray_r = r, ray_theta = th, ray_dr = v, ray_dtheta = 0\<rparr>
       = \<lparr>ray_r = r + v / 100, ray_theta = th, ray_dr = v, ray_dtheta = 0\<rparr>"
proof -
  define q where "q = 1 - 20 / r"
  have q: "q \<noteq> 0" using assms by (simp add: q_def field_simps)
  have dt: "null_dt ideal_arith r v 0 = sqrt (v * v / (q * q))"
    by (simp add: null_dt_def ideal_arith_def GM_def q_def Let_def)
  define X where "X = sqrt (v * v / (q * q))"
  have sq: "X * X = v * v / (q * q)"
    by (simp add: X_def)
  have "d2r ideal_arith r X v 0
      = - 10 / (r * r * r) * (r - 20) * (X * X) + 10 / (r * (r - 20)) * (v * v)"
    by (simp add: d2r_def ideal_arith_def GM_def mult.assoc)
  also have "\<dots> = 0"
  proof -
    define u where "u = r - 20"
    have u: "u \<noteq> 0" using assms by (simp add: u_def)
    have "q = u / r" using assms by (simp add: q_def u_def field_simps)
    then have "X * X = v * v * (r * r) / (u * u)"
      using sq by simp
    then have "- 10 / (r * r * r) * u * (X * X) + 10 / (r * u) * (v * v) = 0"
      using u assms(1) by (simp add: field_simps)
    then show ?thesis by (simp add: u_def)
  qed
  finally have ddr: "d2r ideal_arith r (null_dt ideal_arith r v 0) v 0 = 0"
    by (simp add: dt X_def)
  have ddth: "d2theta ideal_arith r v 0 = 0"
    by (simp add: d2theta_def ideal_arith_def)
  show ?thesis
    by (simp add: step_def Let_def ddr ddth ideal_consts)
qed

lemma ideal_initial_radial:
  "start_r \<noteq> 0 \<Longrightarrow> initial_ray ideal_arith 0 0 num start_r slot
     = \<lparr>ray_r = start_r, ray_theta = pi, ray_dr = - 1, ray_dtheta = 0\<rparr>"
  by (simp add: initial_ray_def ideal_arith_def Let_def)

theorem gen_outcomes_exit_witness:
  "gen_outcomes ideal_arith [0, 0] [7, 7] 0 0 2 (2002 / 100) 0 = Some ([- (pi / 2), 0], [0, 7])
   \<and> gen_outcomes ideal_arith [0, 0] [7, 7] 0 0 2 600 1 = Some ([0, pi / 2], [7, 1])"
proof -
  let ?s0 = "initial_ray ideal_arith 0 0 2 (2002 / 100) (to_int 0)"
  let ?t0 = "initial_ray ideal_arith 0 0 2 600 (to_int 1)"
  have s1: "(step ideal_arith ^^ 1) ?s0
      = \<lparr>ray_r = 2001 / 100, ray_theta = pi, ray_dr = - 1, ray_dtheta = 0\<rparr>"
    by (simp add: ideal_initial_radial ideal_radial_step)
  have s2: "(step ideal_arith ^^ 2) ?s0
      = \<lparr>ray_r = 20, ray_theta = pi, ray_dr = - 1, ray_dtheta = 0\<rparr>"
    using s1 by (simp add: numeral_2_eq_2 ideal_radial_step)
  have t1: "(step ideal_arith ^^ 1) ?t0
      = \<lparr>ray_r = 59999 / 100, ray_theta = pi, ray_dr = - 1, ray_dtheta = 0\<rparr>"
    by (simp add: ideal_initial_radial ideal_radial_step)
  have a: "\<forall>j. 1 \<le> j \<and> j < 2 \<longrightarrow> \<not> crossed ideal_arith (min_r ideal_arith) ((step ideal_arith ^^ j) ?s0)"
  proof (intro allI impI)
    fix j :: nat assume "1 \<le> j \<and> j < 2"
    then have "j = 1" by simp
    then show "\<not> crossed ideal_arith (min_r ideal_arith) ((step ideal_arith ^^ j) ?s0)"
      using s1 by (simp add: crossed_def ideal_consts) (simp add: ideal_arith_def)
  qed
  have b: "crossed ideal_arith (min_r ideal_arith) ((step ideal_arith ^^ 2) ?s0) \<or> 2 = NUM_ITER"
    unfolding s2 by (simp add: crossed_def ideal_consts)
  have c: "\<forall>j. 1 \<le> j \<and> j < 1 \<longrightarrow> \<not> crossed ideal_arith (min_r ideal_arith) ((step ideal_arith ^^ j) ?t0)"
    by simp
  have d: "crossed ideal_arith (min_r ideal_arith) ((step ideal_arith ^^ 1) ?t0) \<or> 1 = NUM_ITER"
    unfolding t1 by (simp add: crossed_def ideal_consts) (simp add: ideal_arith_def)
  have n: "(2::nat) \<le> NUM_ITER" "(1::nat) \<le> NUM_ITER" by (simp_all add: NUM_ITER_def)
  have "gen_outcomes ideal_arith [0, 0] [7, 7] 0 0 2 (2002 / 100) 0 = Some ([- (pi / 2), 0], [0, 7])"
    using gen_outcomes_exit [of 2 ideal_arith 0 0 2 "2002 / 100" 0 "[0, 0]" "[7, 7]", OF _ n(1) a b]
    unfolding s2 by (simp add: to_int_small ideal_consts Let_def) (simp add: ideal_arith_def)
  moreover have "gen_outcomes ideal_arith [0, 0] [7, 7] 0 0 2 600 1 = Some ([0, pi / 2], [7, 1])"
    using gen_outcomes_exit [of 1 ideal_arith 0 0 2 600 1 "[0, 0]" "[7, 7]", OF _ n(2) c d]
    unfolding t1 by (simp add: to_int_small ideal_consts Let_def) (simp add: ideal_arith_def atan2_real_def)
  ultimately show ?thesis by simp
qed

section \<open>Exact arithmetic: radial rays\<close>

text \<open>
  What the integrator computes in exact arithmetic (\<open>ideal_arith\<close>), where no operation
  rounds, for the concrete rays of the examples. A ray with \<open>dtheta = 0\<close> falls along its
  radius, one hundredth per step.
\<close>

lemma radial_iterate:
  assumes "\<forall>i<j. start_r - real i / 100 \<noteq> 0 \<and> start_r - real i / 100 \<noteq> 20"
  shows "(step ideal_arith ^^ j) \<lparr>ray_r = start_r, ray_theta = th, ray_dr = - 1, ray_dtheta = 0\<rparr>
       = \<lparr>ray_r = start_r - real j / 100, ray_theta = th, ray_dr = - 1, ray_dtheta = 0\<rparr>"
  using assms
proof (induction j)
  case 0
  show ?case by simp
next
  case (Suc j)
  have "start_r - real j / 100 \<noteq> 0" "start_r - real j / 100 \<noteq> 20"
    using Suc.prems by simp_all
  then have "step ideal_arith \<lparr>ray_r = start_r - real j / 100, ray_theta = th, ray_dr = - 1, ray_dtheta = 0\<rparr>
      = \<lparr>ray_r = start_r - real j / 100 + (- 1) / 100, ray_theta = th, ray_dr = - 1, ray_dtheta = 0\<rparr>"
    by (rule ideal_radial_step)
  then show ?case
    using Suc by (simp add: field_simps)
qed




lemma euler_step_eq: "euler_step ar = step ar"
  by (rule ext) (simp add: euler_step_def step_def null_dt_def d2r_def d2theta_def Let_def)

text \<open>
  C3. Every iteration that the kernel's loop takes is this update, in this order: \<open>dt\<close>
  from the null condition, then the velocities by \<open>TS\<close> times the second derivatives,
  then the positions by \<open>TS\<close> times the velocities just updated (\<open>euler_step\<close>). With \<open>k\<close>
  the iteration at which the loop leaves (the first whose state passes one of the two
  tests, or the last one), what the kernel stores for a slot is computed from the state
  that \<open>k\<close> such updates make of the slot's initial state.
\<close>

theorem gen_outcomes_step_order:
  fixes ar :: "('f::{plus,times,uminus,inverse,ord}, 'd::{plus,minus,times,uminus,inverse,ord}) arith"
  assumes "1 \<le> k" and "k \<le> NUM_ITER"
    and "\<forall>j. 1 \<le> j \<and> j < k \<longrightarrow>
           \<not> crossed ar (min_r ar) ((euler_step ar ^^ j) (initial_ray ar minv maxv num start_r (to_int gid)))"
    and "crossed ar (min_r ar) ((euler_step ar ^^ k) (initial_ray ar minv maxv num start_r (to_int gid)))
         \<or> k = NUM_ITER"
    and "0 \<le> to_int gid" and "to_int gid < int (length angles)"
    and "length outcomes = length angles"
  shows "gen_outcomes ar angles outcomes minv maxv num start_r gid =
    (let s = (euler_step ar ^^ k) (initial_ray ar minv maxv num start_r (to_int gid));
         r = ray_r s; theta = ray_theta s; dr = ray_dr s; dtheta = ray_dtheta s;
         dx = r * fcos ar theta * dtheta + fsin ar theta * dr;
         dz = - r * fsin ar theta * dtheta + fcos ar theta * dr
     in if r \<le> min_r ar
        then Some (angles[nat (to_int gid) := d2f ar (dlit ar pi / dlit ar 2 - f2d ar theta)],
                   outcomes[nat (to_int gid) := 0])
        else Some (angles[nat (to_int gid) := fatan2 ar dz dx],
                   outcomes[nat (to_int gid) := 1]))"
proof -
  have "integrate ar (min_r ar) NUM_ITER (initial_ray ar minv maxv num start_r (to_int gid))
      = (ray_r ((step ar ^^ k) (initial_ray ar minv maxv num start_r (to_int gid))) \<le> min_r ar,
         (step ar ^^ k) (initial_ray ar minv maxv num start_r (to_int gid)))"
    using assms(1-4) unfolding euler_step_eq by (rule integrate_exit)
  then show ?thesis
    using assms(5-7) by (simp add: gen_outcomes_def Let_def write_at_in_range euler_step_eq)
qed

text \<open>
  In exact arithmetic the ray aimed at the hole from \<open>r = 20.03\<close> takes three updates:
  to 20.02, to 20.01, and to 20, below \<open>min_r\<close>.
\<close>

theorem gen_outcomes_step_order_witness:
  "gen_outcomes ideal_arith [0, 0] [7, 7] 0 0 2 (2003 / 100) 1 = Some ([0, - (pi / 2)], [7, 0])"
proof -
  let ?s0 = "initial_ray ideal_arith 0 0 2 (2003 / 100) (to_int 1)"
  have it: "(euler_step ideal_arith ^^ j) ?s0
      = \<lparr>ray_r = 2003 / 100 - real j / 100, ray_theta = pi, ray_dr = - 1, ray_dtheta = 0\<rparr>"
    if "j \<le> 3" for j
  proof -
    have "\<forall>i<j. 2003 / 100 - real i / 100 \<noteq> 0 \<and> 2003 / 100 - real i / 100 \<noteq> (20 :: real)"
    proof (intro allI impI)
      fix i assume "i < j"
      then have "real i \<le> 2" using that by simp
      then show "2003 / 100 - real i / 100 \<noteq> 0 \<and> 2003 / 100 - real i / 100 \<noteq> (20 :: real)"
        by (simp add: field_simps)
    qed
    then show ?thesis
      unfolding euler_step_eq by (simp add: ideal_initial_radial radial_iterate)
  qed
  have a: "\<forall>j. 1 \<le> j \<and> j < 3 \<longrightarrow>
      \<not> crossed ideal_arith (min_r ideal_arith) ((euler_step ideal_arith ^^ j) ?s0)"
  proof (intro allI impI)
    fix j :: nat assume j: "1 \<le> j \<and> j < 3"
    then have e: "(euler_step ideal_arith ^^ j) ?s0
        = \<lparr>ray_r = 2003 / 100 - real j / 100, ray_theta = pi, ray_dr = - 1, ray_dtheta = 0\<rparr>"
      by (intro it) simp
    have "real j \<le> 2" using j by simp
    then show "\<not> crossed ideal_arith (min_r ideal_arith) ((euler_step ideal_arith ^^ j) ?s0)"
      unfolding e by (simp add: crossed_def ideal_consts) (simp add: ideal_arith_def)
  qed
  have s3: "(euler_step ideal_arith ^^ 3) ?s0
      = \<lparr>ray_r = 20, ray_theta = pi, ray_dr = - 1, ray_dtheta = 0\<rparr>"
    using it [of 3] by simp
  have b: "crossed ideal_arith (min_r ideal_arith) ((euler_step ideal_arith ^^ 3) ?s0) \<or> 3 = NUM_ITER"
    unfolding s3 by (simp add: crossed_def ideal_consts)
  have n: "(3::nat) \<le> NUM_ITER" by (simp add: NUM_ITER_def)
  show ?thesis
    using gen_outcomes_step_order [of 3 ideal_arith 0 0 2 "2003 / 100" 1 "[0, 0]" "[7, 7]", OF _ n a b]
    unfolding s3 by (simp add: to_int_small ideal_consts Let_def) (simp add: ideal_arith_def)
qed

section \<open>Mirrored slots\<close>
















section \<open>The renderer\<close>

text \<open>
  A loop whose body is defined at every counter value folds the body over the counters.
\<close>

lemma for_loop_defined:
  assumes "\<forall>j. i \<le> j \<and> j < n \<longrightarrow> body j = (\<lambda>s. Some (g j s))"
  shows "for_loop body n i s = Some (foldl (\<lambda>s j. g j s) s [i..n - 1])"
  using assms
proof (induction body n i s rule: for_loop.induct)
  case (1 body n i s)
  show ?case
  proof (cases "i < n")
    case True
    have b: "body i s = Some (g i s)" using 1(2) True by simp
    have "for_loop body n (i + 1) (g i s) = Some (foldl (\<lambda>s j. g j s) (g i s) [i + 1..n - 1])"
      using 1(1) [OF True b] 1(2) by simp
    moreover have "[i..n - 1] = i # [i + 1..n - 1]"
      using True by (simp add: upto_rec1)
    ultimately show ?thesis
      using True b by (simp add: for_loop.simps [of body n i s])
  next
    case False
    then show ?thesis by (simp add: for_loop.simps [of body n i s])
  qed
qed

lemma accumulate_triple:
  "accumulate (res_r, res_g, res_b) p =
     (res_r + ucast (px_r p), res_g + ucast (px_g p), res_b + ucast (px_b p))"
  by (simp add: accumulate_def)

lemma foldl_accumulate:
  "foldl accumulate (res_r, res_g, res_b) ps =
     (res_r + of_nat (sum_list (map (\<lambda>p. unat (px_r p)) ps)),
      res_g + of_nat (sum_list (map (\<lambda>p. unat (px_g p)) ps)),
      res_b + of_nat (sum_list (map (\<lambda>p. unat (px_b p)) ps)))"
proof (induction ps arbitrary: res_r res_g res_b)
  case Nil
  show ?case by simp
next
  case (Cons p ps)
  show ?case
    by (simp add: Cons accumulate_triple add.assoc)
qed

lemma antialias_loops:
  assumes "\<forall>ax ay. 0 \<le> ax \<and> ax < n \<and> 0 \<le> ay \<and> ay < n \<longrightarrow> body ax ay = Some (px ax ay)"
  shows "for_loop (\<lambda>aa_x. for_loop (\<lambda>aa_y res. do {
             pixel \<leftarrow> body aa_x aa_y;
             Some (accumulate res pixel)
           }) n 0) n 0 res
       = Some (foldl accumulate res (concat (map (\<lambda>ax. map (px ax) [0..n - 1]) [0..n - 1])))"
proof -
  have inner: "for_loop (\<lambda>aa_y res. do { pixel \<leftarrow> body ax aa_y; Some (accumulate res pixel) }) n 0
         = (\<lambda>res. Some (foldl accumulate res (map (px ax) [0..n - 1])))"
    if "0 \<le> ax" "ax < n" for ax
  proof
    fix res
    have "for_loop (\<lambda>aa_y res. do { pixel \<leftarrow> body ax aa_y; Some (accumulate res pixel) }) n 0 res
        = Some (foldl (\<lambda>s j. accumulate s (px ax j)) res [0..n - 1])"
      by (rule for_loop_defined) (use assms that in auto)
    then show "for_loop (\<lambda>aa_y res. do { pixel \<leftarrow> body ax aa_y; Some (accumulate res pixel) }) n 0 res
        = Some (foldl accumulate res (map (px ax) [0..n - 1]))"
      by (simp add: foldl_map)
  qed
  have "for_loop (\<lambda>aa_x. for_loop (\<lambda>aa_y res. do {
             pixel \<leftarrow> body aa_x aa_y;
             Some (accumulate res pixel)
           }) n 0) n 0 res
      = Some (foldl (\<lambda>s ax. foldl accumulate s (map (px ax) [0..n - 1])) res [0..n - 1])"
    by (rule for_loop_defined) (use inner in auto)
  also have "foldl (\<lambda>s ax. foldl accumulate s (map (px ax) [0..n - 1])) res xs
      = foldl accumulate res (concat (map (\<lambda>ax. map (px ax) [0..n - 1]) xs))" for xs
    by (induction xs arbitrary: res) simp_all
  finally show ?thesis .
qed

lemma sum_list_concat_map:
  "sum_list (map f (concat xss)) = (\<Sum>xs\<leftarrow>xss. sum_list (map f xs))"
  by (induction xss) simp_all

lemma channel_sum_concat:
  "sum_list (map (\<lambda>p. unat (c p)) (concat (map (\<lambda>ax. map (px ax) [0..n - 1]) [0..n - 1])))
     = channel_sum c px n"
  by (simp add: channel_sum_def sum_list_concat_map comp_def)

lemma sum_list_le_length:
  fixes f :: "'a \<Rightarrow> nat"
  assumes "\<And>x. f x \<le> k"
  shows "sum_list (map f xs) \<le> length xs * k"
  by (induction xs) (simp_all add: add_mono assms)

lemma unat_byte_le: "unat (w :: 8 word) \<le> 255"
  using unsigned_less [of w, where 'a = nat] by simp

lemma channel_sum_le: "0 \<le> n \<Longrightarrow> channel_sum c px n \<le> nat n * (nat n * 255)"
proof -
  assume n: "0 \<le> n"
  have "(\<Sum>ay\<leftarrow>[0..n - 1]. unat (c (px ax ay))) \<le> nat n * 255" for ax
    using sum_list_le_length [of "\<lambda>ay. unat (c (px ax ay))" 255 "[0..n - 1]"] n
    by (simp add: unat_byte_le)
  then have "channel_sum c px n \<le> length [0..n - 1] * (nat n * 255)"
    unfolding channel_sum_def by (rule sum_list_le_length)
  then show ?thesis using n by simp
qed

lemma int_div_nonneg:
  assumes "int S < 2 ^ 31" and "0 < m" and "m < 2 ^ 31"
  shows "int_div (of_nat S) (word_of_int m) = Some (of_nat (S div nat m))"
proof -
  have m: "sint (word_of_int m :: 32 word) = m"
    using assms by (simp add: sint_word_of_int_small)
  have S: "sint (of_nat S :: 32 word) = int S"
    using sint_word_of_int_small [of "int S"] assms(1) by simp
  have nz: "(word_of_int m :: 32 word) \<noteq> 0"
    using m assms(2) by (metis less_irrefl sint_0)
  have "int S sdiv m = int S div m"
    using assms(2) by (simp add: signed_divide_int_def sgn_if)
  also have "\<dots> = int (S div nat m)"
    using assms(2) by (simp add: zdiv_int)
  finally have "word_of_int (int S sdiv m) = (of_nat (S div nat m) :: 32 word)"
    by simp
  then show ?thesis
    using nz by (simp add: int_div_def m S)
qed

lemma ucast_of_nat_byte: "(ucast (of_nat k :: 32 word) :: 8 word) = of_nat k"
  by (simp add: unsigned_of_nat word_of_nat_eq_iff)

lemma antialias_sums:
  assumes body: "\<forall>ax ay. 0 \<le> ax \<and> ax < sint aa \<and> 0 \<le> ay \<and> ay < sint aa
                 \<longrightarrow> body ax ay = Some (px ax ay)"
  shows "antialias body aa =
    do {
      q_r \<leftarrow> int_div (of_nat (channel_sum px_r px (sint aa))) (aa * aa);
      q_g \<leftarrow> int_div (of_nat (channel_sum px_g px (sint aa))) (aa * aa);
      q_b \<leftarrow> int_div (of_nat (channel_sum px_b px (sint aa))) (aa * aa);
      Some (q_r, q_g, q_b)
    }"
proof -
  have "for_loop (\<lambda>aa_x. for_loop (\<lambda>aa_y res. do {
             pixel \<leftarrow> body aa_x aa_y;
             Some (accumulate res pixel)
           }) (sint aa) 0) (sint aa) 0 (0, 0, 0)
      = Some (of_nat (channel_sum px_r px (sint aa)), of_nat (channel_sum px_g px (sint aa)),
              of_nat (channel_sum px_b px (sint aa)))"
    using antialias_loops [OF body, of "(0, 0, 0)"]
    by (simp add: foldl_accumulate channel_sum_concat)
  then show ?thesis
    by (simp add: antialias_def)
qed

lemma int_div_exact:
  assumes aa: "1 \<le> sint aa" "sint aa \<le> 2901"
  shows "int_div (of_nat (channel_sum c px (sint aa))) (aa * aa)
       = Some (of_nat (channel_sum c px (sint aa) div nat (sint aa * sint aa)))"
proof -
  let ?n = "sint aa"
  have "nat ?n \<le> 2901" using aa by simp
  then have "nat ?n * (nat ?n * 255) \<le> 2901 * (2901 * 255)"
    by (intro mult_mono) simp_all
  then have bound: "int (channel_sum c px ?n) < 2 ^ 31"
    using channel_sum_le [of ?n c px] aa by simp
  have "?n * ?n \<le> 2901 * 2901"
    using aa by (intro mult_mono) simp_all
  then have sq: "0 < ?n * ?n" "?n * ?n < 2 ^ 31"
    using aa by simp_all
  have "aa * aa = word_of_int (?n * ?n)"
    by simp
  then show ?thesis
    using int_div_nonneg [OF bound sq] by simp
qed

text \<open>
  C9. Where every supersample of the pixel is defined (its lookup stays inside the table)
  and the pixel is inside the buffer, the kernel sums each channel over the \<open>aa \<times> aa\<close>
  supersamples into its \<^verbatim>\<open>int\<close> accumulator, divides each accumulator by \<^verbatim>\<open>aa*aa\<close> with
  the truncating division of \<^verbatim>\<open>int\<close>, and builds the written pixel from exactly these
  three quotients. For \<open>1 \<le> aa \<le> 2901\<close> nothing wraps (\<open>255 * aa\<^sup>2 < 2\<^sup>3\<^sup>1\<close>), and the
  quotients are those of the natural numbers: the sum of the channel divided by \<open>aa\<^sup>2\<close>,
  rounded down.
\<close>

theorem schwarz_average:
  fixes ar :: "('f::{plus,minus,times,uminus,inverse}, 'd::{plus,minus,times,inverse}) arith"
  assumes "\<forall>ax ay. 0 \<le> ax \<and> ax < sint aa \<and> 0 \<le> ay \<and> ay < sint aa \<longrightarrow>
           sample ar angles angle_results x_res y_res cx cy skytex spheretex aa num_outcomes
             gid0 gid1 ax ay = Some (px ax ay)"
    and "0 \<le> to_int (gid0 + gid1 * unat pitch)"
    and "to_int (gid0 + gid1 * unat pitch) < int (length buffer)"
  shows "schwarz ar buffer angles angle_results x_res y_res pitch cx cy skytex spheretex aa
           num_outcomes gid0 gid1 =
      do {
        q_r \<leftarrow> int_div (of_nat (channel_sum px_r px (sint aa))) (aa * aa);
        q_g \<leftarrow> int_div (of_nat (channel_sum px_g px (sint aa))) (aa * aa);
        q_b \<leftarrow> int_div (of_nat (channel_sum px_b px (sint aa))) (aa * aa);
        Some (buffer[nat (to_int (gid0 + gid1 * unat pitch)) :=
                \<lparr>px_a = ucast q_b, px_r = ucast q_g, px_g = ucast q_r, px_b = 0\<rparr>])
      }
    \<and> (1 \<le> sint aa \<and> sint aa \<le> 2901 \<longrightarrow>
        schwarz ar buffer angles angle_results x_res y_res pitch cx cy skytex spheretex aa
           num_outcomes gid0 gid1 =
        Some (buffer[nat (to_int (gid0 + gid1 * unat pitch)) :=
          \<lparr>px_a = of_nat (channel_sum px_b px (sint aa) div nat (sint aa * sint aa)),
           px_r = of_nat (channel_sum px_g px (sint aa) div nat (sint aa * sint aa)),
           px_g = of_nat (channel_sum px_r px (sint aa) div nat (sint aa * sint aa)),
           px_b = 0\<rparr>]))"
proof -
  have machine: "schwarz ar buffer angles angle_results x_res y_res pitch cx cy skytex spheretex aa
           num_outcomes gid0 gid1 =
      do {
        q_r \<leftarrow> int_div (of_nat (channel_sum px_r px (sint aa))) (aa * aa);
        q_g \<leftarrow> int_div (of_nat (channel_sum px_g px (sint aa))) (aa * aa);
        q_b \<leftarrow> int_div (of_nat (channel_sum px_b px (sint aa))) (aa * aa);
        Some (buffer[nat (to_int (gid0 + gid1 * unat pitch)) :=
                \<lparr>px_a = ucast q_b, px_r = ucast q_g, px_g = ucast q_r, px_b = 0\<rparr>])
      }"
    using assms(2,3)
    by (simp add: schwarz_def Let_def antialias_sums [OF assms(1)] write_at_def
        split: Option.bind_split)
  moreover have "do {
        q_r \<leftarrow> int_div (of_nat (channel_sum px_r px (sint aa))) (aa * aa);
        q_g \<leftarrow> int_div (of_nat (channel_sum px_g px (sint aa))) (aa * aa);
        q_b \<leftarrow> int_div (of_nat (channel_sum px_b px (sint aa))) (aa * aa);
        Some (buffer[nat (to_int (gid0 + gid1 * unat pitch)) :=
                \<lparr>px_a = ucast q_b, px_r = ucast q_g, px_g = ucast q_r, px_b = 0\<rparr>])
      } = Some (buffer[nat (to_int (gid0 + gid1 * unat pitch)) :=
          \<lparr>px_a = of_nat (channel_sum px_b px (sint aa) div nat (sint aa * sint aa)),
           px_r = of_nat (channel_sum px_g px (sint aa) div nat (sint aa * sint aa)),
           px_g = of_nat (channel_sum px_r px (sint aa) div nat (sint aa * sint aa)),
           px_b = 0\<rparr>])"
    if "1 \<le> sint aa \<and> sint aa \<le> 2901"
    using that by (simp add: int_div_exact ucast_of_nat_byte)
  ultimately show ?thesis by simp
qed

text \<open>The supersamples of pixel \<open>(1, 1)\<close> of a 2 by 2 image, in exact arithmetic.\<close>

lemma sqrt_quarter: "sqrt (1 / 4) = 1 / 2"
  by (simp add: real_sqrt_divide)

lemma trunc_sqrt_half: "trunc (18 * sqrt (1 / 2) / 5) = 2"
proof -
  have "sqrt (25 / 81) \<le> sqrt (1 / 2)" by (rule real_sqrt_le_mono) simp
  moreover have "sqrt (1 / 2) < sqrt (25 / 36)" by (rule real_sqrt_less_mono) simp
  moreover have "sqrt (25 / 81) = 5 / 9" by (rule real_sqrt_unique) (simp_all add: power2_eq_square)
  moreover have "sqrt (25 / 36) = 5 / 6" by (rule real_sqrt_unique) (simp_all add: power2_eq_square)
  ultimately have "2 \<le> 18 * sqrt (1 / 2) / 5" "18 * sqrt (1 / 2) / 5 < 3" by simp_all
  then have "\<lfloor>18 * sqrt (1 / 2) / 5\<rfloor> = 2" by linarith
  then show ?thesis by (simp add: trunc_def)
qed

lemmas sample_eval = sample_def Let_def ideal_arith_def lookup_def read_at_def max_r_def
      pixel_from_img_def tab_angles_def tab_outcomes_def tint_sky_def green_sphere_def
      sky_px_def sphere_px_def

lemma sample_centre_aa1:
  "sample ideal_arith tab_angles tab_outcomes 2 2 0 600 tint_sky green_sphere 1 6 1 1 0 0
     = Some sky_px"
  by (simp add: sample_eval trunc_def)

lemma sample_quad:
  "sample ideal_arith tab_angles tab_outcomes 2 2 0 600 tint_sky green_sphere 2 6 1 1 0 0
     = Some sky_px"
  "sample ideal_arith tab_angles tab_outcomes 2 2 0 600 tint_sky green_sphere 2 6 1 1 0 1
     = Some sphere_px"
  "sample ideal_arith tab_angles tab_outcomes 2 2 0 600 tint_sky green_sphere 2 6 1 1 1 0
     = Some sphere_px"
  "sample ideal_arith tab_angles tab_outcomes 2 2 0 600 tint_sky green_sphere 2 6 1 1 1 1
     = Some sphere_px"
     apply (simp add: sample_eval trunc_def)
    apply (simp add: sample_eval trunc_def sqrt_quarter)
   apply (simp add: sample_eval trunc_def sqrt_quarter)
  apply (simp add: sample_eval trunc_sqrt_half)
  apply (simp add: trunc_def)
  done

theorem schwarz_average_witness:
  "schwarz ideal_arith [blank, blank, blank, blank] tab_angles tab_outcomes 2 2 2 0 600
       tint_sky green_sphere 2 6 1 1
     = Some [blank, blank, blank, \<lparr>px_a = 25, px_r = 204, px_g = 63, px_b = 0\<rparr>]"
proof -
  have s: "\<forall>ax ay. 0 \<le> ax \<and> ax < sint (2 :: 32 word) \<and> 0 \<le> ay \<and> ay < sint (2 :: 32 word) \<longrightarrow>
      sample ideal_arith tab_angles tab_outcomes 2 2 0 600 tint_sky green_sphere 2 6 1 1 ax ay
        = Some (quad ax ay)"
  proof (intro allI impI)
    fix ax ay :: int
    assume "0 \<le> ax \<and> ax < sint (2 :: 32 word) \<and> 0 \<le> ay \<and> ay < sint (2 :: 32 word)"
    then have "(ax = 0 \<or> ax = 1) \<and> (ay = 0 \<or> ay = 1)" by auto
    then show "sample ideal_arith tab_angles tab_outcomes 2 2 0 600 tint_sky green_sphere 2 6 1 1 ax ay
        = Some (quad ax ay)"
      using sample_quad by (auto simp: quad_def)
  qed
  have c: "channel_sum px_r quad 2 = 255" "channel_sum px_g quad 2 = 816"
    "channel_sum px_b quad 2 = 102"
    by (simp_all add: channel_sum_def quad_def sky_px_def sphere_px_def upto.simps)
  show ?thesis
    using schwarz_average [of 2 ideal_arith tab_angles tab_outcomes 2 2 0 600 tint_sky green_sphere
        6 1 1 quad 2 "[blank, blank, blank, blank]", OF s]
    by (simp add: c to_int_small int_div_def)
qed

lemma antialias_centre_aa1:
  "antialias (sample ideal_arith tab_angles tab_outcomes 2 2 0 600 tint_sky green_sphere 1 6 1 1) 1
     = Some (255, 51, 102)"
proof -
  have s: "\<forall>ax ay. 0 \<le> ax \<and> ax < sint (1 :: 32 word) \<and> 0 \<le> ay \<and> ay < sint (1 :: 32 word) \<longrightarrow>
      sample ideal_arith tab_angles tab_outcomes 2 2 0 600 tint_sky green_sphere 1 6 1 1 ax ay
        = Some ((\<lambda>ax ay. sky_px) ax ay)"
  proof (intro allI impI)
    fix ax ay :: int
    assume "0 \<le> ax \<and> ax < sint (1 :: 32 word) \<and> 0 \<le> ay \<and> ay < sint (1 :: 32 word)"
    then have "ax = 0 \<and> ay = 0" by simp
    then show "sample ideal_arith tab_angles tab_outcomes 2 2 0 600 tint_sky green_sphere 1 6 1 1
        ax ay = Some ((\<lambda>ax ay. sky_px) ax ay)"
      using sample_centre_aa1 by simp
  qed
  have c: "channel_sum c (\<lambda>ax ay. sky_px) 1 = unat (c sky_px)" for c
    by (simp add: channel_sum_def upto.simps)
  show ?thesis
    using antialias_sums [OF s] by (simp add: c int_div_def) (simp add: sky_px_def)
qed

text \<open>
  The claim C1 as stated fails: with accumulators \<open>(res_r, res_g, res_b) = (255, 51, 102)\<close>
  the written pixel has \<open>a = 102\<close>, \<open>r = 51\<close>, \<open>g = 255\<close>, \<open>b = 0\<close>, not
  \<open>a = 0\<close>, \<open>r = 102\<close>, \<open>g = 51\<close>, \<open>b = 255\<close>.
\<close>

theorem schwarz_layout_counterexample:
  "antialias (sample ideal_arith tab_angles tab_outcomes 2 2 0 600 tint_sky green_sphere 1 6 1 1) 1
     = Some (255, 51, 102)
   \<and> schwarz ideal_arith [blank, blank, blank, blank] tab_angles tab_outcomes 2 2 2 0 600
        tint_sky green_sphere 1 6 1 1
     = Some [blank, blank, blank, \<lparr>px_a = 102, px_r = 51, px_g = 255, px_b = 0\<rparr>]
   \<and> \<lparr>px_a = 102, px_r = 51, px_g = 255, px_b = 0\<rparr> \<noteq> claimed_pixel 255 51 102"
  using antialias_centre_aa1
  by (simp add: schwarz_def Let_def write_at_def to_int_small claimed_pixel_def)

text \<open>
  C1, amended. Every pixel the kernel writes has the field \<open>a\<close> holding the averaged blue
  accumulator, \<open>r\<close> the green one, \<open>g\<close> the red one, and \<open>b = 0\<close>: the initialiser
  \<^verbatim>\<open>{ res_b, res_g, res_r, 0 }\<close> fills the fields in the order \<open>a\<close>, \<open>r\<close>, \<open>g\<close>, \<open>b\<close> of
  their declaration, so the bytes in memory are blue, green, red, 0.
\<close>

theorem schwarz_pixel_layout:
  fixes ar :: "('f::{plus,minus,times,uminus,inverse}, 'd::{plus,minus,times,inverse}) arith"
  assumes "antialias (sample ar angles angle_results x_res y_res cx cy skytex spheretex aa
             num_outcomes gid0 gid1) aa = Some (res_r, res_g, res_b)"
    and "0 \<le> to_int (gid0 + gid1 * unat pitch)"
    and "to_int (gid0 + gid1 * unat pitch) < int (length buffer)"
  shows "schwarz ar buffer angles angle_results x_res y_res pitch cx cy skytex spheretex aa
           num_outcomes gid0 gid1 =
    Some (buffer[nat (to_int (gid0 + gid1 * unat pitch)) :=
            \<lparr>px_a = ucast res_b, px_r = ucast res_g, px_g = ucast res_r, px_b = 0\<rparr>])"
  using assms by (simp add: schwarz_def Let_def write_at_def)

theorem schwarz_pixel_layout_witness:
  "schwarz ideal_arith [blank, blank, blank, blank] tab_angles tab_outcomes 2 2 2 0 600
        tint_sky green_sphere 1 6 1 1
     = Some [blank, blank, blank, \<lparr>px_a = 102, px_r = 51, px_g = 255, px_b = 0\<rparr>]"
  using schwarz_pixel_layout [of ideal_arith tab_angles tab_outcomes 2 2 0 600 tint_sky green_sphere
      1 6 1 1 255 51 102 2 "[blank, blank, blank, blank]", OF antialias_centre_aa1]
  by (simp add: to_int_small)

lemma colour_pixel_from_img:
  assumes "rgb (img c) = rgb (img' c)"
  shows "colour (pixel_from_img ar img c) = colour (pixel_from_img ar img' c)"
  using assms
  by (cases "img c"; cases "img' c") (simp add: rgb_def colour_def pixel_from_img_def Let_def)

lemma colour_sample:
  fixes ar :: "('f::{plus,minus,times,uminus,inverse}, 'd::{plus,minus,times,inverse}) arith"
  assumes "\<forall>c. rgb (skytex c) = rgb (skytex' c)"
    and "\<forall>c. rgb (spheretex c) = rgb (spheretex' c)"
  shows "map_option colour (sample ar angles angle_results x_res y_res cx cy skytex spheretex aa
            num_outcomes gid0 gid1 aa_x aa_y)
       = map_option colour (sample ar angles angle_results x_res y_res cx cy skytex' spheretex' aa
            num_outcomes gid0 gid1 aa_x aa_y)"
proof -
  have bind: "map_option colour (Option.bind m (\<lambda>l. Some
          (if P l then pixel_from_img ar spheretex (c1 l) else pixel_from_img ar skytex (c2 l))))
      = map_option colour (Option.bind m (\<lambda>l. Some
          (if P l then pixel_from_img ar spheretex' (c1 l) else pixel_from_img ar skytex' (c2 l))))"
    for m :: "'f res_t option" and P c1 c2
  proof -
    have "colour (pixel_from_img ar skytex c) = colour (pixel_from_img ar skytex' c)"
      "colour (pixel_from_img ar spheretex c) = colour (pixel_from_img ar spheretex' c)" for c
      by (rule colour_pixel_from_img, rule assms [rule_format])+
    then show ?thesis by (cases m) simp_all
  qed
  show ?thesis
    unfolding sample_def
    apply (simp only: Let_def case_prod_conv)
    apply (rule bind)
    done
qed

lemma accumulate_colour:
  "colour p = colour p' \<Longrightarrow> accumulate res p = accumulate res p'"
  by (simp add: accumulate_def colour_def split: prod.splits)

lemma body_colour:
  assumes "map_option colour m = map_option colour m'"
  shows "do { pixel \<leftarrow> m; Some (accumulate res pixel) } = do { pixel \<leftarrow> m'; Some (accumulate res pixel) }"
  using assms by (cases m; cases m') (auto dest: accumulate_colour)

lemma antialias_colour:
  assumes "\<forall>ax ay. map_option colour (body ax ay) = map_option colour (body' ax ay)"
  shows "antialias body aa = antialias body' aa"
proof -
  have "(\<lambda>aa_y res. do { pixel \<leftarrow> body aa_x aa_y; Some (accumulate res pixel) })
      = (\<lambda>aa_y res. do { pixel \<leftarrow> body' aa_x aa_y; Some (accumulate res pixel) })" for aa_x
    by (intro ext body_colour) (use assms in simp)
  then show ?thesis
    by (simp add: antialias_def)
qed

text \<open>
  C10. Two runs of the kernel whose sky textures and whose sphere textures agree in the
  three colour channels of every sample, and differ at most in the alpha channel, leave
  the same buffer (all other arguments equal): \<^verbatim>\<open>pixel.a\<close> is never accumulated.
\<close>

theorem schwarz_alpha_independent:
  fixes ar :: "('f::{plus,minus,times,uminus,inverse}, 'd::{plus,minus,times,inverse}) arith"
  assumes "\<forall>c. rgb (skytex c) = rgb (skytex' c)"
    and "\<forall>c. rgb (spheretex c) = rgb (spheretex' c)"
  shows "schwarz ar buffer angles angle_results x_res y_res pitch cx cy skytex spheretex aa
           num_outcomes gid0 gid1
       = schwarz ar buffer angles angle_results x_res y_res pitch cx cy skytex' spheretex' aa
           num_outcomes gid0 gid1"
proof -
  have "antialias (sample ar angles angle_results x_res y_res cx cy skytex spheretex aa
            num_outcomes gid0 gid1) aa
      = antialias (sample ar angles angle_results x_res y_res cx cy skytex' spheretex' aa
            num_outcomes gid0 gid1) aa"
    by (rule antialias_colour) (use colour_sample [OF assms] in blast)
  then show ?thesis
    by (simp add: schwarz_def)
qed

theorem schwarz_alpha_independent_witness:
  "schwarz ideal_arith [blank, blank, blank, blank] tab_angles tab_outcomes 2 2 2 0 600
        tint_sky green_sphere 2 6 1 1
   = schwarz ideal_arith [blank, blank, blank, blank] tab_angles tab_outcomes 2 2 2 0 600
        (\<lambda>(u, v). (1, 1 / 5, 2 / 5, u)) (\<lambda>(u, v). (0, 1, 0, v)) 2 6 1 1"
  using schwarz_alpha_independent [of tint_sky "\<lambda>(u, v). (1, 1 / 5, 2 / 5, u)"
      green_sphere "\<lambda>(u, v). (0, 1, 0, v)" ideal_arith]
  by (simp add: rgb_def tint_sky_def green_sphere_def split_beta)

end
